theory Spec2Isabelle
  imports Main "HOL-Library.Sublist"
begin

section \<open>Python strings\<close>

text \<open>
  A Python \<open>str\<close> is modelled as a \<open>string\<close> (a list of 8-bit characters, the UTF-8
  encoding of the text). The character classes below are the ASCII part of Python's
  \<open>str.isspace\<close>, \<open>\d\<close> and case folding; characters beyond ASCII are in no class.
\<close>

definition isspace :: "char \<Rightarrow> bool" where
  "isspace c = (c \<in> set [CHR 0x09, CHR 0x0A, CHR 0x0B, CHR 0x0C, CHR 0x0D,
                           CHR 0x1C, CHR 0x1D, CHR 0x1E, CHR 0x1F, CHR 0x20])"

definition isdigit :: "char \<Rightarrow> bool" where
  "isdigit c = (c \<in> set ''0123456789'')"

definition ascii_lower :: "char \<Rightarrow> char" where
  "ascii_lower c =
     (case map_of (zip ''ABCDEFGHIJKLMNOPQRSTUVWXYZ'' ''abcdefghijklmnopqrstuvwxyz'') c of
        Some l \<Rightarrow> l
      | None \<Rightarrow> c)"

text \<open>\<open>s.strip()\<close>: whitespace removed at both ends.\<close>

definition strip :: "string \<Rightarrow> string" where
  "strip s = rev (dropWhile isspace (rev (dropWhile isspace s)))"

text \<open>\<open>s.startswith(p)\<close> and \<open>sub in s\<close>.\<close>

primrec startswith :: "string \<Rightarrow> string \<Rightarrow> bool" where
  "startswith s [] = True"
| "startswith s (p # ps) = (case s of [] \<Rightarrow> False | c # cs \<Rightarrow> c = p \<and> startswith cs ps)"

fun contains :: "string \<Rightarrow> string \<Rightarrow> bool" where
  "contains [] sub = (sub = [])"
| "contains (c # cs) sub = (startswith (c # cs) sub \<or> contains cs sub)"


text \<open>
  \<open>t.replace(old, new)\<close>: the text is scanned once from the left; at an occurrence of
  \<open>old\<close> the scan emits \<open>new\<close> and goes on behind the occurrence, so occurrences do not
  overlap and the emitted text is not looked at again. An empty \<open>old\<close> matches between
  all characters.
\<close>

function replace_scan :: "string \<Rightarrow> string \<Rightarrow> string \<Rightarrow> string" where
  "replace_scan [] old new = []"
| "replace_scan (c # cs) old new =
     (if old \<noteq> [] \<and> startswith (c # cs) old
      then new @ replace_scan (drop (length old) (c # cs)) old new
      else c # replace_scan cs old new)"
  by pat_completeness auto
termination
  by (relation "measure (\<lambda>(t, old, new). length t)") auto

definition str_replace :: "string \<Rightarrow> string \<Rightarrow> string \<Rightarrow> string" where
  "str_replace t old new =
     (if old = [] then new @ concat (map (\<lambda>c. c # new) t) else replace_scan t old new)"

text \<open>\<open>sep.join(parts)\<close>.\<close>

fun join_str :: "string \<Rightarrow> string list \<Rightarrow> string" where
  "join_str sep [] = []"
| "join_str sep [s] = s"
| "join_str sep (s # s' # ss) = s @ sep @ join_str sep (s' # ss)"


section \<open>Placeholder substitution\<close>

text \<open>
  \<open>field_values\<close> is a Python dict, iterated in insertion order: an association list
  of keys and values. The f-string \<open>f"{{{{{key}}}}}"\<close> is the key between two pairs of
  braces.
\<close>

type_synonym field_values = "(string \<times> string) list"

definition placeholder :: "string \<Rightarrow> string" where
  "placeholder key = ''{{'' @ key @ ''}}''"

fun replace_placeholders :: "string \<Rightarrow> field_values \<Rightarrow> string" where
  "replace_placeholders text [] = text"
| "replace_placeholders text ((key, val) # rest) =
     replace_placeholders
       (if strip val \<noteq> [] then str_replace text (placeholder key) val
        else str_replace text (placeholder key) []) rest"

section \<open>Documents\<close>

text \<open>
  The part of a python-docx \<open>Document\<close> that the program touches: top-level paragraphs
  and tables; a table is rows of cells, a cell is a list of paragraphs, and a paragraph is
  a list of runs, each with its text and font size. Every cell is a value of its own.
  Reading \<open>paragraph.text\<close> concatenates the run texts; assigning it replaces the runs by
  a single new run without a font size.
\<close>

record run =
  run_text :: string
  font_size :: "nat option"

type_synonym docx_paragraph = "run list"
type_synonym cell = "docx_paragraph list"
type_synonym row = "cell list"
type_synonym table = "row list"

record document =
  paragraphs :: "docx_paragraph list"
  tables :: "table list"

definition Pt :: "nat \<Rightarrow> nat" where
  "Pt n = n * 12700"

definition paragraph_text :: "docx_paragraph \<Rightarrow> string" where
  "paragraph_text p = concat (map run_text p)"

definition set_text :: "string \<Rightarrow> docx_paragraph" where
  "set_text t = [\<lparr>run_text = t, font_size = None\<rparr>]"

definition process_paragraph :: "field_values \<Rightarrow> docx_paragraph \<Rightarrow> docx_paragraph" where
  "process_paragraph fv p =
     (if list_ex (\<lambda>(key, val). contains (paragraph_text p) (placeholder key)) fv
      then set_text (replace_placeholders (paragraph_text p) fv)
      else p)"

definition process_cell_paragraph :: "field_values \<Rightarrow> docx_paragraph \<Rightarrow> docx_paragraph" where
  "process_cell_paragraph fv p = set_text (replace_placeholders (paragraph_text p) fv)"

definition process_document :: "document \<Rightarrow> field_values \<Rightarrow> document" where
  "process_document doc fv =
     \<lparr>paragraphs = map (process_paragraph fv) (paragraphs doc),
      tables = map (map (map (map (process_cell_paragraph fv)))) (tables doc)\<rparr>"

definition adjust_font :: "document \<Rightarrow> nat \<Rightarrow> document" where
  "adjust_font doc sz =
     \<lparr>paragraphs = map (map (\<lambda>r. r\<lparr>font_size := Some sz\<rparr>)) (paragraphs doc),
      tables = map (map (map (map (map (\<lambda>r. r\<lparr>font_size := Some sz\<rparr>))))) (tables doc)\<rparr>"

section \<open>Suggestion post-processing\<close>




section \<open>Date parsing\<close>

text \<open>
  \<open>datetime.datetime.strptime(s, "%d %B %Y")\<close> as CPython's \<open>_strptime\<close> computes it in
  the C locale. The format becomes the regular expression
  \<open>(?P<d>3[0-1]|[1-2]\d|0[1-9]|[1-9]| [1-9])\s+(?P<B>september|...|may)\s+(?P<Y>\d\d\d\d)\<close>,
  compiled with \<open>re.IGNORECASE\<close> and matched at the start of the string; the month names
  are tried longest first. The first match in backtracking order is taken, the whole
  string must be consumed, and the numbers must form a date of the calendar (years 1 to
  9999). Every failure is a \<open>ValueError\<close>.

  Each part of the expression returns its possible matches in the order in which the
  regular expression engine tries them, as pairs of the matched text and the rest.
\<close>

datatype value_error = NoMatch | UnconvertedData string | OutOfRange

definition month_names :: "string list" where
  "month_names = [''january'', ''february'', ''march'', ''april'', ''may'', ''june'', ''july'',
     ''august'', ''september'', ''october'', ''november'', ''december'']"

definition re_B_alternatives :: "string list" where
  "re_B_alternatives = [''september'', ''february'', ''november'', ''december'', ''january'',
     ''october'', ''august'', ''march'', ''april'', ''june'', ''july'', ''may'']"

definition re_d :: "string \<Rightarrow> (string \<times> string) list" where
  "re_d s =
     (case s of a # b # r \<Rightarrow> if a = CHR ''3'' \<and> b \<in> set ''01'' then [([a, b], r)] else []
              | _ \<Rightarrow> []) @
     (case s of a # b # r \<Rightarrow> if a \<in> set ''12'' \<and> isdigit b then [([a, b], r)] else []
              | _ \<Rightarrow> []) @
     (case s of a # b # r \<Rightarrow> if a = CHR ''0'' \<and> b \<in> set ''123456789'' then [([a, b], r)] else []
              | _ \<Rightarrow> []) @
     (case s of a # r \<Rightarrow> if a \<in> set ''123456789'' then [([a], r)] else []
              | _ \<Rightarrow> []) @
     (case s of a # b # r \<Rightarrow> if a = CHR '' '' \<and> b \<in> set ''123456789'' then [([a, b], r)] else []
              | _ \<Rightarrow> [])"

fun re_ws :: "string \<Rightarrow> string list" where
  "re_ws [] = []"
| "re_ws (c # cs) = (if isspace c then re_ws cs @ [cs] else [])"

definition re_literal_ci :: "string \<Rightarrow> string \<Rightarrow> (string \<times> string) list" where
  "re_literal_ci name s =
     (if length name \<le> length s \<and> map ascii_lower (take (length name) s) = name
      then [(take (length name) s, drop (length name) s)] else [])"

definition re_B :: "string \<Rightarrow> (string \<times> string) list" where
  "re_B s = concat (map (\<lambda>name. re_literal_ci name s) re_B_alternatives)"

definition re_Y :: "string \<Rightarrow> (string \<times> string) list" where
  "re_Y s =
     (case s of a # b # c # d # r \<Rightarrow>
        if isdigit a \<and> isdigit b \<and> isdigit c \<and> isdigit d then [([a, b, c, d], r)] else []
      | _ \<Rightarrow> [])"

definition format_regex_match :: "string \<Rightarrow> (string \<times> string \<times> string \<times> string) list" where
  "format_regex_match s =
     [(d, B, Y, r5). (d, r1) \<leftarrow> re_d s, r2 \<leftarrow> re_ws r1, (B, r3) \<leftarrow> re_B r2,
                     r4 \<leftarrow> re_ws r3, (Y, r5) \<leftarrow> re_Y r4]"

text \<open>\<open>int(s)\<close> on an optional blank and decimal digits.\<close>

definition digit_value :: "char \<Rightarrow> nat" where
  "digit_value c = of_char c - 48"

definition int_of_str :: "string \<Rightarrow> nat" where
  "int_of_str s = foldl (\<lambda>n c. 10 * n + digit_value c) 0 (strip s)"

text \<open>\<open>f_month.index(name)\<close>: the month number, \<open>f_month[0]\<close> being the empty string.\<close>

fun index_of :: "string \<Rightarrow> string list \<Rightarrow> nat" where
  "index_of x [] = 0"
| "index_of x (y # ys) = (if x = y then 0 else Suc (index_of x ys))"

definition is_leap :: "nat \<Rightarrow> bool" where
  "is_leap y = (y mod 4 = 0 \<and> (y mod 100 \<noteq> 0 \<or> y mod 400 = 0))"

definition days_in_month :: "nat \<Rightarrow> nat \<Rightarrow> nat" where
  "days_in_month y m =
     (if m = 2 then (if is_leap y then 29 else 28)
      else if m \<in> set [4, 6, 9, 11] then 30 else 31)"

definition valid_date :: "nat \<Rightarrow> nat \<Rightarrow> nat \<Rightarrow> bool" where
  "valid_date y m d = (1 \<le> y \<and> y \<le> 9999 \<and> 1 \<le> m \<and> m \<le> 12 \<and> 1 \<le> d \<and> d \<le> days_in_month y m)"

definition strptime :: "string \<Rightarrow> value_error + (nat \<times> nat \<times> nat)" where
  "strptime s =
     (case format_regex_match s of
        [] \<Rightarrow> Inl NoMatch
      | (d, B, Y, rest) # _ \<Rightarrow>
          if rest \<noteq> [] then Inl (UnconvertedData rest)
          else let year = int_of_str Y;
                   month = Suc (index_of (map ascii_lower B) month_names);
                   day = int_of_str d
               in if valid_date year month day then Inr (year, month, day) else Inl OutOfRange)"

text \<open>
  A day as two decimal digits and a year as four (\<open>"%02d"\<close>, \<open>"%04d"\<close>), to write the
  dates of the form \<open>DD MONTH YYYY\<close>.
\<close>

definition digit_char :: "nat \<Rightarrow> char" where
  "digit_char n = ''0123456789'' ! n"

definition two_digits :: "nat \<Rightarrow> string" where
  "two_digits d = [digit_char (d div 10), digit_char (d mod 10)]"

definition four_digits :: "nat \<Rightarrow> string" where
  "four_digits y = [digit_char (y div 1000), digit_char (y div 100 mod 10),
                    digit_char (y div 10 mod 10), digit_char (y mod 10)]"

section \<open>Session state and the page's actions\<close>

record session =
  title :: string
  code :: string
  checklist_no :: string
  revision :: string
  date :: string
  position :: string
  actions_text :: string
  sop_suggestion :: string
  expanded :: bool
  doc_bytes :: "string option"
  doc_filename :: "string option"

text \<open>What an action shows or does besides changing the session state.\<close>

datatype event =
    StError string
  | StToast string
  | StRerun
  | StDownloadButton string string
  | OpenTemplate
  | KeyError string

text \<open>
  \<open>st.session_state[field]\<close> for the string fields. The page sets all of them before
  any button is looked at, so the lookup of another key, which would raise, does not
  happen.
\<close>

definition session_state :: "session \<Rightarrow> string \<rightharpoonup> string" where
  "session_state s =
     map_of [(''title'', title s), (''code'', code s), (''checklist_no'', checklist_no s),
             (''revision'', revision s), (''date'', date s), (''position'', position s),
             (''actions_text'', actions_text s), (''sop_suggestion'', sop_suggestion s)]"

text \<open>
  The Accept and Decline buttons under the suggestion. They exist only while a
  suggestion is stored; \<open>st.rerun()\<close> ends the run of the script, so Decline is not
  looked at after Accept.
\<close>

definition suggestion_buttons :: "bool \<Rightarrow> bool \<Rightarrow> session \<Rightarrow> session \<times> event list" where
  "suggestion_buttons accept decline s =
     (if sop_suggestion s = [] then (s, [])
      else if accept
        then (s\<lparr>actions_text := sop_suggestion s, expanded := False\<rparr>,
              [StToast ''SOP updated from suggestion.'', StRerun])
      else if decline
        then (s\<lparr>expanded := False\<rparr>, [StToast ''SOP suggestion declined.''])
      else (s, []))"

text \<open>
  The outside of \<open>generate_doc\<close>: reading and parsing the template, and saving the
  document, each of which may raise an exception with a message.
\<close>

record world =
  load_template :: "string + document"
  save_docx :: "document \<Rightarrow> string + string"

definition required :: "string list" where
  "required = [''title'', ''checklist_no'', ''date'', ''actions_text'']"

definition missing :: "session \<Rightarrow> string list" where
  "missing s =
     filter (\<lambda>field. case session_state s field of Some v \<Rightarrow> strip v = [] | None \<Rightarrow> False)
       required"

definition field_values_of :: "session \<Rightarrow> field_values" where
  "field_values_of s =
     [(''TITLE'', title s), (''CODE'', code s), (''CHECKLIST.NO'', checklist_no s),
      (''REV'', revision s), (''DATE'', date s), (''POSITION'', position s),
      (''ACTIONS'', actions_text s)]"

definition date_format_message :: string where
  "date_format_message = ''Please enter the date in DD MONTH YYYY format (e.g., 02 MARCH 2025)''"

text \<open>The second \<open>try\<close> block of \<open>generate_doc\<close>.\<close>

definition render :: "world \<Rightarrow> session \<Rightarrow> session \<times> event list" where
  "render w s =
     (case load_template w of
        Inl e \<Rightarrow> (s, [OpenTemplate, StError (''Error generating document: '' @ e)])
      | Inr doc \<Rightarrow>
          let doc1 = process_document doc (field_values_of s);
              doc2 = adjust_font doc1 (Pt 8);
              filename = checklist_no s @ '' - '' @ title s @ ''.docx''
          in (case save_docx w doc2 of
                Inl e \<Rightarrow> (s, [OpenTemplate, StError (''Error generating document: '' @ e)])
              | Inr bytes \<Rightarrow>
                  (s\<lparr>doc_bytes := Some bytes, doc_filename := Some filename\<rparr>, [OpenTemplate])))"

definition generate_doc :: "world \<Rightarrow> session \<Rightarrow> session \<times> event list" where
  "generate_doc w s =
     (if missing s \<noteq> []
      then (s, [StError (''Please fill in required fields: '' @ join_str '', '' (missing s))])
      else (case strptime (date s) of
              Inl e \<Rightarrow> (s, [StError date_format_message])
            | Inr d \<Rightarrow> render w s))"

text \<open>The handler of the ``Generate SOP'' button.\<close>

definition generate_button :: "world \<Rightarrow> session \<Rightarrow> session \<times> event list" where
  "generate_button w s =
     (let (s', out) = generate_doc w s
      in (case doc_bytes s' of
            None \<Rightarrow> (s', out @ [StError ''Document generation failed or missing required fields.''])
          | Some bytes \<Rightarrow>
              if bytes = []
              then (s', out @ [StError ''Document generation failed or missing required fields.''])
              else (case doc_filename s' of
                      None \<Rightarrow> (s', out @ [KeyError ''doc_filename''])
                    | Some name \<Rightarrow> (s', out @ [StDownloadButton bytes name]))))"

section \<open>Properties of the string operations\<close>

lemma startswith_prefix: "startswith s p = prefix p s"
  by (induction p arbitrary: s) (auto split: list.splits)

lemma contains_sublist: "contains s p = sublist p s"
  by (induction s) (auto simp: startswith_prefix sublist_Cons_right simp del: startswith.simps)

lemma placeholder_nonempty: "placeholder key \<noteq> []"
  by (simp add: placeholder_def)

lemma replace_scan_absent: "\<not> contains t old \<Longrightarrow> replace_scan t old new = t"
  by (induction t) auto

lemma str_replace_absent: "old \<noteq> [] \<Longrightarrow> \<not> contains t old \<Longrightarrow> str_replace t old new = t"
  by (simp add: str_replace_def replace_scan_absent)

lemma replace_placeholders_absent:
  "\<not> list_ex (\<lambda>(key, val). contains t (placeholder key)) fv \<Longrightarrow> replace_placeholders t fv = t"
  by (induction fv arbitrary: t) (auto simp: str_replace_absent placeholder_nonempty)






lemma replace_placeholders_append:
  "replace_placeholders t (fv @ fv') = replace_placeholders (replace_placeholders t fv) fv'"
  by (induction fv arbitrary: t) auto




lemma replace_scan_self: "old \<noteq> [] \<Longrightarrow> replace_scan old old new = new"
  by (cases old) (auto simp: startswith_prefix simp del: startswith.simps)

lemma not_ex_all:
  "list_all (\<lambda>(k, v). \<not> contains t (placeholder k)) fv
   \<Longrightarrow> \<not> list_ex (\<lambda>(key, val). contains t (placeholder key)) fv"
  by (auto simp: list_all_iff list_ex_iff)



subsection \<open>The think tags\<close>










subsection \<open>Matching a date\<close>

lemma upt_10: "[0..<10] = [0, 1, 2, 3, 4, 5, 6, 7, 8, 9::nat]"
  by (simp add: upt_rec)

lemma upt_32: "[1..<32] = [1, 2, 3, 4, 5, 6, 7, 8, 9, 10, 11, 12, 13, 14, 15, 16, 17, 18, 19, 20,
     21, 22, 23, 24, 25, 26, 27, 28, 29, 30, 31::nat]"
  by (simp add: upt_rec)

lemma digit_cases: "n < 10 \<Longrightarrow> n \<in> set [0, 1, 2, 3, 4, 5, 6, 7, 8, 9::nat]"
proof -
  assume "n < 10"
  then have "n \<in> set [0..<10]" by simp
  then show ?thesis by (simp only: upt_10)
qed

lemma day_cases: "1 \<le> d \<Longrightarrow> d \<le> 31 \<Longrightarrow> d \<in> set [1, 2, 3, 4, 5, 6, 7, 8, 9, 10, 11, 12, 13, 14, 15, 16, 17, 18, 19, 20,
     21, 22, 23, 24, 25, 26, 27, 28, 29, 30, 31::nat]"
proof -
  assume "1 \<le> d" "d \<le> 31"
  then have "d \<in> set [1..<32]" by simp
  then show ?thesis by (simp only: upt_32)
qed

lemma digit_char_all:
  "\<forall>n \<in> set [0, 1, 2, 3, 4, 5, 6, 7, 8, 9::nat].
     isdigit (digit_char n) \<and> \<not> isspace (digit_char n) \<and> digit_value (digit_char n) = n"
  by (simp add: digit_char_def isdigit_def isspace_def digit_value_def)

lemma digit_char_props:
  assumes "n < 10"
  shows "isdigit (digit_char n)" and "\<not> isspace (digit_char n)" and "digit_value (digit_char n) = n"
  using digit_cases[OF assms] digit_char_all by blast+


lemma int_of_two_digits: "d < 100 \<Longrightarrow> int_of_str (two_digits d) = d"
proof -
  assume d: "d < 100"
  then have a: "d div 10 < 10" and b: "d mod 10 < 10" by auto
  show ?thesis
    using digit_char_props[OF a] digit_char_props[OF b]
    by (simp add: int_of_str_def two_digits_def strip_def)
qed

lemma four_digits_sum:
  "10 * (10 * (10 * (y div 1000) + y div 100 mod 10) + y div 10 mod 10) + y mod 10 = (y::nat)"
proof -
  have a: "y div 100 = y div 10 div 10" by (simp add: div_mult2_eq)
  have b: "y div 1000 = y div 10 div 10 div 10" by (simp add: div_mult2_eq)
  show ?thesis unfolding a b by simp
qed

lemma int_of_four_digits: "y < 10000 \<Longrightarrow> int_of_str (four_digits y) = y"
proof -
  assume y: "y < 10000"
  then have a: "y div 1000 < 10" and b: "y div 100 mod 10 < 10" and c: "y div 10 mod 10 < 10"
    and d: "y mod 10 < 10" by auto
  show ?thesis
    using digit_char_props[OF a] digit_char_props[OF b] digit_char_props[OF c] digit_char_props[OF d]
      four_digits_sum[of y]
    by (simp add: int_of_str_def four_digits_def strip_def)
qed

lemma re_Y_four_digits: "y < 10000 \<Longrightarrow> re_Y (four_digits y) = [(four_digits y, [])]"
proof -
  assume y: "y < 10000"
  then have a: "y div 1000 < 10" and b: "y div 100 mod 10 < 10" and c: "y div 10 mod 10 < 10"
    and d: "y mod 10 < 10" by auto
  show ?thesis
    using digit_char_props(1)[OF a] digit_char_props(1)[OF b] digit_char_props(1)[OF c] digit_char_props(1)[OF d]
    by (simp add: re_Y_def four_digits_def)
qed

lemma re_d_two_digits_all:
  "\<forall>d \<in> set [1, 2, 3, 4, 5, 6, 7, 8, 9, 10, 11, 12, 13, 14, 15, 16, 17, 18, 19, 20,
     21, 22, 23, 24, 25, 26, 27, 28, 29, 30, 31::nat].
     \<exists>xs. re_d (two_digits d @ r) = (two_digits d, r) # xs"
  by (simp add: re_d_def two_digits_def digit_char_def isdigit_def)

lemma re_d_two_digits:
  assumes "1 \<le> d" and "d \<le> 31"
  shows "\<exists>xs. re_d (two_digits d @ r) = (two_digits d, r) # xs"
  using day_cases[OF assms] re_d_two_digits_all by blast

lemma re_ws_single: "\<not> isspace c \<Longrightarrow> re_ws (CHR '' '' # c # r) = [c # r]"
  by (simp add: isspace_def)


lemma ascii_lower_ws:
  "\<forall>c \<in> set [CHR 0x09, CHR 0x0A, CHR 0x0B, CHR 0x0C, CHR 0x0D,
                CHR 0x1C, CHR 0x1D, CHR 0x1E, CHR 0x1F, CHR 0x20]. ascii_lower c = c"
  by (simp add: ascii_lower_def)

lemma ascii_lower_space: "isspace c \<Longrightarrow> ascii_lower c = c"
  using ascii_lower_ws unfolding isspace_def by blast

lemma lower_not_space: "ascii_lower c = l \<Longrightarrow> \<not> isspace l \<Longrightarrow> \<not> isspace c"
  using ascii_lower_space by auto

lemma month_names_prefix_free:
  "\<forall>a \<in> set month_names. \<forall>b \<in> set month_names. prefix a b \<longrightarrow> a = b"
  by code_simp

lemma month_names_no_space: "\<forall>a \<in> set month_names. a \<noteq> [] \<and> \<not> list_ex isspace a"
  by (simp add: month_names_def isspace_def)

lemma month_names_distinct: "distinct month_names" "length month_names = 12"
  by (simp_all add: month_names_def)

lemma re_B_alternatives_set: "set re_B_alternatives = set month_names" "distinct re_B_alternatives"
  by (auto simp: re_B_alternatives_def month_names_def)

lemma index_of_nth: "distinct xs \<Longrightarrow> i < length xs \<Longrightarrow> index_of (xs ! i) xs = i"
proof (induction xs arbitrary: i)
  case Nil
  then show ?case by simp
next
  case (Cons x xs)
  then show ?case by (cases i) auto
qed

lemma concat_select:
  "distinct xs \<Longrightarrow> a \<in> set xs \<Longrightarrow> concat (map (\<lambda>n. if n = a then [x] else []) xs) = [x]"
proof (induction xs)
  case Nil
  then show ?case by simp
next
  case (Cons y ys)
  show ?case
  proof (cases "y = a")
    case True
    with Cons.prems have "a \<notin> set ys" by simp
    then have "concat (map (\<lambda>n. if n = a then [x] else []) ys) = []"
      by (induction ys) auto
    with True show ?thesis by simp
  next
    case False
    with Cons show ?thesis by simp
  qed
qed

lemma re_literal_ci_month:
  assumes mon: "map ascii_lower mon = nm" and nm: "nm \<in> set month_names"
    and name: "name \<in> set month_names"
  shows "re_literal_ci name (mon @ CHR '' '' # r)
           = (if name = nm then [(mon, CHR '' '' # r)] else [])"
proof (cases "name = nm")
  case True
  then have "length name = length mon" using mon by auto
  then show ?thesis using True mon by (simp add: re_literal_ci_def)
next
  case False
  have "map ascii_lower (take (length name) (mon @ CHR '' '' # r)) \<noteq> name"
  proof (cases "length name \<le> length mon")
    case True
    show ?thesis
    proof
      assume eq: "map ascii_lower (take (length name) (mon @ CHR '' '' # r)) = name"
      from True have "take (length name) (mon @ CHR '' '' # r) = take (length name) mon" by simp
      with eq have "name = map ascii_lower (take (length name) mon)" by simp
      then have "name = take (length name) nm" unfolding mon[symmetric] take_map .
      then have "prefix name nm" by (metis take_is_prefix)
      with month_names_prefix_free name nm have "name = nm" by blast
      with False show False by simp
    qed
  next
    case long: False
    show ?thesis
    proof
      assume eq: "map ascii_lower (take (length name) (mon @ CHR '' '' # r)) = name"
      from long obtain k where k: "length name = length mon + Suc k"
        by (metis not_less_eq_eq le_iff_add add_Suc_right add_Suc less_eq_Suc_le not_le_imp_less)
      have tk: "take (length name) (mon @ CHR '' '' # r) = mon @ CHR '' '' # take k r"
        unfolding k by simp
      have "name = map ascii_lower (mon @ CHR '' '' # take k r)"
        using eq[unfolded tk] by simp
      then have "ascii_lower (CHR '' '') \<in> set name" by simp
      then have "CHR '' '' \<in> set name" by (simp add: ascii_lower_def)
      then have "list_ex isspace name" by (auto simp: list_ex_iff isspace_def)
      with month_names_no_space name show False by blast
    qed
  qed
  with False show ?thesis by (simp add: re_literal_ci_def)
qed

lemma re_B_month:
  assumes mon: "map ascii_lower mon = nm" and nm: "nm \<in> set month_names"
  shows "re_B (mon @ CHR '' '' # r) = [(mon, CHR '' '' # r)]"
proof -
  have "map (\<lambda>name. re_literal_ci name (mon @ CHR '' '' # r)) re_B_alternatives
      = map (\<lambda>name. if name = nm then [(mon, CHR '' '' # r)] else []) re_B_alternatives"
  proof (rule map_cong[OF refl])
    fix x assume "x \<in> set re_B_alternatives"
    then have "x \<in> set month_names" using re_B_alternatives_set(1) by simp
    then show "re_literal_ci x (mon @ CHR '' '' # r) = (if x = nm then [(mon, CHR '' '' # r)] else [])"
      by (rule re_literal_ci_month[OF mon nm])
  qed
  then have "re_B (mon @ CHR '' '' # r)
      = concat (map (\<lambda>name. if name = nm then [(mon, CHR '' '' # r)] else []) re_B_alternatives)"
    unfolding re_B_def by (rule arg_cong)
  also have "\<dots> = [(mon, CHR '' '' # r)]"
    using nm re_B_alternatives_set(1) by (intro concat_select[OF re_B_alternatives_set(2)]) simp
  finally show ?thesis .
qed

lemma month_name_nth:
  "1 \<le> m \<Longrightarrow> m \<le> 12 \<Longrightarrow> month_names ! (m - 1) \<in> set month_names"
  using month_names_distinct(2) by (intro nth_mem) simp

lemma format_regex_match_date:
  assumes d: "1 \<le> d" "d \<le> 31" and m: "1 \<le> m" "m \<le> 12" and y: "y \<le> 9999"
    and mon: "map ascii_lower mon = month_names ! (m - 1)"
  shows "\<exists>zs. format_regex_match (two_digits d @ '' '' @ mon @ '' '' @ four_digits y)
           = (two_digits d, mon, four_digits y, []) # zs"
proof -
  let ?nm = "month_names ! (m - 1)"
  have nm: "?nm \<in> set month_names" by (rule month_name_nth[OF m])
  then have "?nm \<noteq> []" and nsp: "\<not> list_ex isspace ?nm"
    using month_names_no_space by blast+
  then obtain c cs where mc: "mon = c # cs" using mon by (cases mon) auto
  have "ascii_lower c = hd ?nm" using mon mc by (metis list.sel(1) list.simps(9))
  moreover have "\<not> isspace (hd ?nm)" using nsp \<open>?nm \<noteq> []\<close>
    by (cases ?nm) (auto simp: list_ex_iff)
  ultimately have c: "\<not> isspace c" by (rule lower_not_space)
  from y have y': "y < 10000" by simp
  have y1: "\<not> isspace (digit_char (y div 1000))"
    using digit_char_props(2)[of "y div 1000"] y' by simp
  obtain xs where rd: "re_d (two_digits d @ '' '' @ mon @ '' '' @ four_digits y)
      = (two_digits d, '' '' @ mon @ '' '' @ four_digits y) # xs"
    using re_d_two_digits[OF d] by blast
  have ws1: "re_ws ('' '' @ mon @ '' '' @ four_digits y) = [mon @ '' '' @ four_digits y]"
    using re_ws_single[OF c] mc by simp
  have rb: "re_B (mon @ '' '' @ four_digits y) = [(mon, '' '' @ four_digits y)]"
    using re_B_month[OF mon nm] by simp
  have ws2: "re_ws ('' '' @ four_digits y) = [four_digits y]"
    using re_ws_single[OF y1] by (simp add: four_digits_def)
  have ry: "re_Y (four_digits y) = [(four_digits y, [])]"
    by (rule re_Y_four_digits[OF y'])
  show ?thesis
    unfolding format_regex_match_def rd using ws1 rb ws2 ry by (simp del: re_ws.simps)
qed

subsection \<open>The generate action\<close>

lemmas strptime_defs = strptime_def format_regex_match_def re_d_def re_B_def re_Y_def
  re_literal_ci_def re_B_alternatives_def month_names_def isspace_def isdigit_def
  ascii_lower_def int_of_str_def digit_value_def strip_def valid_date_def
  days_in_month_def is_leap_def

lemma strptime_examples:
  "strptime ''02 MARCH 2025'' = Inr (2025, 3, 2)"
  "strptime ''2025-03-02'' = Inl NoMatch"
  "strptime ''32 MARCH 2025'' = Inl NoMatch"
  "strptime ''02 MARCH'' = Inl NoMatch"
  by (simp_all add: strptime_defs)


section \<open>Substitution\<close>

text \<open>
  C2, as the specification states it: text introduced as a replacement value is never
  scanned for placeholders, so that with \<open>TITLE\<close> bound to \<open>{{CODE}}\<close> the output keeps
  the literal \<open>{{CODE}}\<close>. The keys are substituted one after the other, each on the
  result of the one before; with the field set that \<open>generate_doc\<close> builds (\<open>TITLE\<close>
  before \<open>CODE\<close>) the text \<open>{{TITLE}}\<close> becomes the value bound to \<open>CODE\<close>, and the
  literal \<open>{{CODE}}\<close> is gone.
\<close>

theorem replace_placeholders_counterexample:
  "replace_placeholders ''{{TITLE}}''
     [(''TITLE'', ''{{CODE}}''), (''CODE'', ''X''), (''CHECKLIST.NO'', ''100.001''), (''REV'', ''''),
      (''DATE'', ''02 MARCH 2025''), (''POSITION'', ''''), (''ACTIONS'', ''Turn on radio.'')] = ''X''
   \<and> \<not> contains (replace_placeholders ''{{TITLE}}''
     [(''TITLE'', ''{{CODE}}''), (''CODE'', ''X''), (''CHECKLIST.NO'', ''100.001''), (''REV'', ''''),
      (''DATE'', ''02 MARCH 2025''), (''POSITION'', ''''), (''ACTIONS'', ''Turn on radio.'')]) ''{{CODE}}''"
  by (simp add: placeholder_def str_replace_def strip_def isspace_def)

text \<open>
  C2, amended: the value substituted for a key is scanned for the placeholders of the
  keys that come later in the field set, and for no others. For the text that is exactly
  the placeholder of \<open>key\<close>, with a non-blank value and no earlier key whose placeholder
  lies inside that placeholder, the output is the value with the later keys substituted
  in it; the value's own placeholder and those of the earlier keys stay as they are.
\<close>

theorem replace_placeholders_scanned_by_later_keys:
  "list_all (\<lambda>(k, v). \<not> contains (placeholder key) (placeholder k)) before
   \<Longrightarrow> strip val \<noteq> []
   \<Longrightarrow> replace_placeholders (placeholder key) (before @ (key, val) # after)
       = replace_placeholders val after"
  by (simp add: replace_placeholders_append replace_placeholders_absent not_ex_all
      str_replace_def placeholder_nonempty replace_scan_self)

theorem replace_placeholders_scanned_by_later_keys_witness:
  "list_all (\<lambda>(k, v). \<not> contains (placeholder ''CODE'') (placeholder k)) [(''TITLE'', ''T'')]
   \<and> strip ''{{TITLE}} {{CODE}} {{REV}}'' \<noteq> []
   \<and> replace_placeholders (placeholder ''CODE'')
        ([(''TITLE'', ''T'')] @ (''CODE'', ''{{TITLE}} {{CODE}} {{REV}}'') # [(''REV'', ''B'')])
       = ''{{TITLE}} {{CODE}} B''"
proof -
  have h1: "list_all (\<lambda>(k, v). \<not> contains (placeholder ''CODE'') (placeholder k)) [(''TITLE'', ''T'')]"
    by (simp add: placeholder_def)
  have h2: "strip ''{{TITLE}} {{CODE}} {{REV}}'' \<noteq> []"
    by (simp add: strip_def isspace_def)
  have "replace_placeholders ''{{TITLE}} {{CODE}} {{REV}}'' [(''REV'', ''B'')] = ''{{TITLE}} {{CODE}} B''"
    by (simp add: placeholder_def str_replace_def strip_def isspace_def)
  then show ?thesis
    using h1 h2 replace_placeholders_scanned_by_later_keys [OF h1 h2, of "[(''REV'', ''B'')]"]
    by simp
qed





text \<open>
  C5: a text in which no \<open>{{KEY}}\<close> of the field set occurs is returned unchanged; so
  when the output of a substitution has no placeholder left, substituting again gives
  the same output.
\<close>

theorem replace_placeholders_unchanged:
  "(\<not> list_ex (\<lambda>(key, val). contains t (placeholder key)) fv
      \<longrightarrow> replace_placeholders t fv = t)
   \<and> (\<not> list_ex (\<lambda>(key, val). contains (replace_placeholders t fv) (placeholder key)) fv
      \<longrightarrow> replace_placeholders (replace_placeholders t fv) fv = replace_placeholders t fv)"
  using replace_placeholders_absent [of t fv]
    replace_placeholders_absent [of "replace_placeholders t fv" fv]
  by blast

theorem replace_placeholders_unchanged_witness:
  "\<not> list_ex (\<lambda>(key, val). contains ''Check: {{TITLE}}!'' (placeholder key))
        [(''CODE'', ''C''), (''REV'', '''')]
   \<and> replace_placeholders ''Check: {{TITLE}}!'' [(''CODE'', ''C''), (''REV'', '''')]
       = ''Check: {{TITLE}}!''
   \<and> \<not> list_ex (\<lambda>(key, val).
          contains (replace_placeholders ''{{CODE}}{{REV}}'' [(''CODE'', ''C''), (''REV'', '''')]) (placeholder key))
        [(''CODE'', ''C''), (''REV'', '''')]
   \<and> replace_placeholders (replace_placeholders ''{{CODE}}{{REV}}'' [(''CODE'', ''C''), (''REV'', '''')])
        [(''CODE'', ''C''), (''REV'', '''')] = ''C''"
  using replace_placeholders_unchanged [of "''Check: {{TITLE}}!''" "[(''CODE'', ''C''), (''REV'', '''')]"]
    replace_placeholders_unchanged [of "''{{CODE}}{{REV}}''" "[(''CODE'', ''C''), (''REV'', '''')]"]
  by (simp add: placeholder_def str_replace_def strip_def isspace_def)

section \<open>Suggestions\<close>



section \<open>Date validation\<close>

text \<open>
  C10: the month name is matched ignoring case. For every date of the calendar, written
  as two digits, a blank, the English month name in any casing of its letters, a blank
  and four digits, \<open>strptime\<close> returns that date; so \<open>02 march 2025\<close> and
  \<open>02 March 2025\<close> pass as \<open>02 MARCH 2025\<close> does.
\<close>

theorem strptime_any_case:
  assumes "valid_date y m d" and "map ascii_lower mon = month_names ! (m - 1)"
  shows "strptime (two_digits d @ '' '' @ mon @ '' '' @ four_digits y) = Inr (y, m, d)"
proof -
  from assms(1) have d: "1 \<le> d" "d \<le> 31" and m: "1 \<le> m" "m \<le> 12" and y: "y \<le> 9999"
    by (auto simp: valid_date_def days_in_month_def split: if_splits)
  obtain zs where f: "format_regex_match (two_digits d @ '' '' @ mon @ '' '' @ four_digits y)
           = (two_digits d, mon, four_digits y, []) # zs"
    using format_regex_match_date[OF d m y assms(2)] by blast
  have i: "Suc (index_of (map ascii_lower mon) month_names) = m"
    using index_of_nth[OF month_names_distinct(1), of "m - 1"] month_names_distinct(2) m assms(2)
    by simp
  have dd: "int_of_str (two_digits d) = d" using d by (intro int_of_two_digits) simp
  have yy: "int_of_str (four_digits y) = y" using y by (intro int_of_four_digits) simp
  show ?thesis
    unfolding strptime_def f using assms(1) by (simp add: i dd yy)
qed

theorem strptime_any_case_witness:
  "valid_date 2025 3 2
   \<and> map ascii_lower ''March'' = month_names ! (3 - 1)
   \<and> map ascii_lower ''march'' = month_names ! (3 - 1)
   \<and> map ascii_lower ''MARCH'' = month_names ! (3 - 1)
   \<and> strptime ''02 March 2025'' = Inr (2025, 3, 2)
   \<and> strptime ''02 march 2025'' = Inr (2025, 3, 2)
   \<and> strptime ''02 MARCH 2025'' = Inr (2025, 3, 2)"
proof -
  have v: "valid_date 2025 3 2"
    by (simp add: valid_date_def days_in_month_def)
  have c1: "map ascii_lower ''March'' = month_names ! (3 - 1)"
    and c2: "map ascii_lower ''march'' = month_names ! (3 - 1)"
    and c3: "map ascii_lower ''MARCH'' = month_names ! (3 - 1)"
    by (simp_all add: ascii_lower_def month_names_def)
  have s: "two_digits 2 = ''02''" "four_digits 2025 = ''2025''"
    by (simp_all add: two_digits_def four_digits_def digit_char_def)
  show ?thesis
    using v c1 c2 c3 strptime_any_case[OF v c1] strptime_any_case[OF v c2]
      strptime_any_case[OF v c3]
    by (simp add: s)
qed

text \<open>
  C6: the date check of \<open>generate_doc\<close> accepts \<open>02 MARCH 2025\<close> and rejects
  \<open>2025-03-02\<close>, \<open>32 MARCH 2025\<close> and \<open>02 MARCH\<close>. With the required fields filled in,
  a rejected date leaves the session as it is and shows only the message with the
  expected format, before the template is opened; the accepted date goes on to render.
\<close>

theorem generate_doc_date_check:
  "strptime ''02 MARCH 2025'' = Inr (2025, 3, 2)
   \<and> strptime ''2025-03-02'' = Inl NoMatch
   \<and> strptime ''32 MARCH 2025'' = Inl NoMatch
   \<and> strptime ''02 MARCH'' = Inl NoMatch
   \<and> (missing s = [] \<and> date s \<in> set [''2025-03-02'', ''32 MARCH 2025'', ''02 MARCH'']
        \<longrightarrow> generate_doc w s = (s, [StError date_format_message]))
   \<and> (missing s = [] \<and> date s = ''02 MARCH 2025'' \<longrightarrow> generate_doc w s = render w s)"
  using strptime_examples by (auto simp: generate_doc_def)


theorem generate_doc_date_check_witness:
  "missing \<lparr>title = ''Radio Check'', code = '''', checklist_no = ''100.001'', revision = '''',
        date = ''32 MARCH 2025'', position = '''', actions_text = ''Turn on radio.'',
        sop_suggestion = '''', expanded = True, doc_bytes = None, doc_filename = None\<rparr> = []
   \<and> date \<lparr>title = ''Radio Check'', code = '''', checklist_no = ''100.001'', revision = '''',
        date = ''32 MARCH 2025'', position = '''', actions_text = ''Turn on radio.'',
        sop_suggestion = '''', expanded = True, doc_bytes = None, doc_filename = None\<rparr> \<in> set [''2025-03-02'', ''32 MARCH 2025'', ''02 MARCH'']
   \<and> generate_doc \<lparr>load_template = Inr \<lparr>paragraphs = [[\<lparr>run_text = ''{{DATE}}: '', font_size = None\<rparr>]],
          tables = [[[[[\<lparr>run_text = ''{{TITLE}} - '', font_size = Some 12\<rparr>,
                        \<lparr>run_text = ''{{ACTIONS}}'', font_size = None\<rparr>]]]]]\<rparr>,
        save_docx = (\<lambda>doc. Inr (concat (map paragraph_text
                       (paragraphs doc @ concat (concat (concat (tables doc)))))))\<rparr> \<lparr>title = ''Radio Check'', code = '''', checklist_no = ''100.001'', revision = '''',
        date = ''32 MARCH 2025'', position = '''', actions_text = ''Turn on radio.'',
        sop_suggestion = '''', expanded = True, doc_bytes = None, doc_filename = None\<rparr>
     = (\<lparr>title = ''Radio Check'', code = '''', checklist_no = ''100.001'', revision = '''',
        date = ''32 MARCH 2025'', position = '''', actions_text = ''Turn on radio.'',
        sop_suggestion = '''', expanded = True, doc_bytes = None, doc_filename = None\<rparr>,
        [StError ''Please enter the date in DD MONTH YYYY format (e.g., 02 MARCH 2025)''])
   \<and> missing \<lparr>title = ''Radio Check'', code = '''', checklist_no = ''100.001'', revision = '''',
        date = ''02 MARCH 2025'', position = '''', actions_text = ''Turn on radio.'',
        sop_suggestion = '''', expanded = True, doc_bytes = None, doc_filename = None\<rparr> = []
   \<and> generate_doc \<lparr>load_template = Inr \<lparr>paragraphs = [[\<lparr>run_text = ''{{DATE}}: '', font_size = None\<rparr>]],
          tables = [[[[[\<lparr>run_text = ''{{TITLE}} - '', font_size = Some 12\<rparr>,
                        \<lparr>run_text = ''{{ACTIONS}}'', font_size = None\<rparr>]]]]]\<rparr>,
        save_docx = (\<lambda>doc. Inr (concat (map paragraph_text
                       (paragraphs doc @ concat (concat (concat (tables doc)))))))\<rparr> \<lparr>title = ''Radio Check'', code = '''', checklist_no = ''100.001'', revision = '''',
        date = ''02 MARCH 2025'', position = '''', actions_text = ''Turn on radio.'',
        sop_suggestion = '''', expanded = True, doc_bytes = None, doc_filename = None\<rparr>
     = (\<lparr>title = ''Radio Check'', code = '''', checklist_no = ''100.001'', revision = '''',
        date = ''02 MARCH 2025'', position = '''', actions_text = ''Turn on radio.'',
        sop_suggestion = '''', expanded = True, doc_bytes = Some ''02 MARCH 2025: Radio Check - Turn on radio.'',
        doc_filename = Some ''100.001 - Radio Check.docx''\<rparr>, [OpenTemplate])"
  using generate_doc_date_check [of "\<lparr>title = ''Radio Check'', code = '''', checklist_no = ''100.001'', revision = '''',
        date = ''32 MARCH 2025'', position = '''', actions_text = ''Turn on radio.'',
        sop_suggestion = '''', expanded = True, doc_bytes = None, doc_filename = None\<rparr>" "\<lparr>load_template = Inr \<lparr>paragraphs = [[\<lparr>run_text = ''{{DATE}}: '', font_size = None\<rparr>]],
          tables = [[[[[\<lparr>run_text = ''{{TITLE}} - '', font_size = Some 12\<rparr>,
                        \<lparr>run_text = ''{{ACTIONS}}'', font_size = None\<rparr>]]]]]\<rparr>,
        save_docx = (\<lambda>doc. Inr (concat (map paragraph_text
                       (paragraphs doc @ concat (concat (concat (tables doc)))))))\<rparr>"]
    generate_doc_date_check [of "\<lparr>title = ''Radio Check'', code = '''', checklist_no = ''100.001'', revision = '''',
        date = ''02 MARCH 2025'', position = '''', actions_text = ''Turn on radio.'',
        sop_suggestion = '''', expanded = True, doc_bytes = None, doc_filename = None\<rparr>" "\<lparr>load_template = Inr \<lparr>paragraphs = [[\<lparr>run_text = ''{{DATE}}: '', font_size = None\<rparr>]],
          tables = [[[[[\<lparr>run_text = ''{{TITLE}} - '', font_size = Some 12\<rparr>,
                        \<lparr>run_text = ''{{ACTIONS}}'', font_size = None\<rparr>]]]]]\<rparr>,
        save_docx = (\<lambda>doc. Inr (concat (map paragraph_text
                       (paragraphs doc @ concat (concat (concat (tables doc)))))))\<rparr>"]
  by (simp add: missing_def required_def session_state_def strip_def isspace_def
      date_format_message_def render_def field_values_of_def process_document_def
      process_paragraph_def process_cell_paragraph_def set_text_def paragraph_text_def
      adjust_font_def placeholder_def str_replace_def)

section \<open>The page's actions\<close>



text \<open>
  C9: while a suggestion is stored, Accept makes \<open>actions_text\<close> the stored suggestion,
  whatever it held before, and sets \<open>expanded\<close> to false.
\<close>

theorem accept_overwrites_actions:
  assumes "sop_suggestion s \<noteq> []"
  shows "suggestion_buttons True decline s
           = (s\<lparr>actions_text := sop_suggestion s, expanded := False\<rparr>,
              [StToast ''SOP updated from suggestion.'', StRerun])
         \<and> actions_text (fst (suggestion_buttons True decline s)) = sop_suggestion s
         \<and> \<not> expanded (fst (suggestion_buttons True decline s))"
  using assms by (simp add: suggestion_buttons_def)

theorem accept_overwrites_actions_witness:
  "sop_suggestion \<lparr>title = ''Radio Check'', code = '''', checklist_no = ''100.001'', revision = '''',
       date = ''02 MARCH 2025'', position = '''', actions_text = ''Turn on radio.'',
       sop_suggestion = ''A. B. C.'', expanded = True, doc_bytes = None, doc_filename = None\<rparr> \<noteq> []
   \<and> actions_text (fst (suggestion_buttons True False
       \<lparr>title = ''Radio Check'', code = '''', checklist_no = ''100.001'', revision = '''',
        date = ''02 MARCH 2025'', position = '''', actions_text = ''Turn on radio.'',
        sop_suggestion = ''A. B. C.'', expanded = True, doc_bytes = None, doc_filename = None\<rparr>))
      = ''A. B. C.''
   \<and> \<not> expanded (fst (suggestion_buttons True False
       \<lparr>title = ''Radio Check'', code = '''', checklist_no = ''100.001'', revision = '''',
        date = ''02 MARCH 2025'', position = '''', actions_text = ''Turn on radio.'',
        sop_suggestion = ''A. B. C.'', expanded = True, doc_bytes = None, doc_filename = None\<rparr>))"
  using accept_overwrites_actions
    [of "\<lparr>title = ''Radio Check'', code = '''', checklist_no = ''100.001'', revision = '''',
        date = ''02 MARCH 2025'', position = '''', actions_text = ''Turn on radio.'',
        sop_suggestion = ''A. B. C.'', expanded = True, doc_bytes = None, doc_filename = None\<rparr>" False]
  by simp

text \<open>
  C1: when the rendering raises, an error is shown; the claim is that no document is then
  offered for download. Here the session holds the bytes of an earlier successful
  render: the template can no longer be read (or saving fails), the error is shown, and
  the handler still shows the download button with the earlier bytes, since
  \<open>generate_doc\<close> leaves \<open>doc_bytes\<close> as it was. In a session without earlier bytes the
  handler shows its failure message instead.
\<close>

theorem generate_button_offers_stale_document:
  "generate_button \<lparr>load_template = Inl ''No such file or directory'',
        save_docx = (\<lambda>doc. Inr (concat (map paragraph_text (paragraphs doc))))\<rparr> \<lparr>title = ''Radio Check'', code = '''', checklist_no = ''100.001'', revision = '''',
        date = ''02 MARCH 2025'', position = '''', actions_text = ''Turn on radio.'',
        sop_suggestion = '''', expanded = True, doc_bytes = Some ''02 MARCH 2025: Radio Check - Turn on radio.'',
        doc_filename = Some ''100.001 - Radio Check.docx''\<rparr>
     = (\<lparr>title = ''Radio Check'', code = '''', checklist_no = ''100.001'', revision = '''',
        date = ''02 MARCH 2025'', position = '''', actions_text = ''Turn on radio.'',
        sop_suggestion = '''', expanded = True, doc_bytes = Some ''02 MARCH 2025: Radio Check - Turn on radio.'',
        doc_filename = Some ''100.001 - Radio Check.docx''\<rparr>,
        [OpenTemplate, StError ''Error generating document: No such file or directory'',
         StDownloadButton ''02 MARCH 2025: Radio Check - Turn on radio.'' ''100.001 - Radio Check.docx''])
   \<and> generate_button \<lparr>load_template = Inr \<lparr>paragraphs = [], tables = []\<rparr>,
        save_docx = (\<lambda>doc. Inl ''disk full'')\<rparr> \<lparr>title = ''Radio Check'', code = '''', checklist_no = ''100.001'', revision = '''',
        date = ''02 MARCH 2025'', position = '''', actions_text = ''Turn on radio.'',
        sop_suggestion = '''', expanded = True, doc_bytes = Some ''02 MARCH 2025: Radio Check - Turn on radio.'',
        doc_filename = Some ''100.001 - Radio Check.docx''\<rparr>
     = (\<lparr>title = ''Radio Check'', code = '''', checklist_no = ''100.001'', revision = '''',
        date = ''02 MARCH 2025'', position = '''', actions_text = ''Turn on radio.'',
        sop_suggestion = '''', expanded = True, doc_bytes = Some ''02 MARCH 2025: Radio Check - Turn on radio.'',
        doc_filename = Some ''100.001 - Radio Check.docx''\<rparr>,
        [OpenTemplate, StError ''Error generating document: disk full'',
         StDownloadButton ''02 MARCH 2025: Radio Check - Turn on radio.'' ''100.001 - Radio Check.docx''])
   \<and> generate_button \<lparr>load_template = Inl ''No such file or directory'',
        save_docx = (\<lambda>doc. Inr (concat (map paragraph_text (paragraphs doc))))\<rparr> \<lparr>title = ''Radio Check'', code = '''', checklist_no = ''100.001'', revision = '''',
        date = ''02 MARCH 2025'', position = '''', actions_text = ''Turn on radio.'',
        sop_suggestion = '''', expanded = True, doc_bytes = None, doc_filename = None\<rparr>
     = (\<lparr>title = ''Radio Check'', code = '''', checklist_no = ''100.001'', revision = '''',
        date = ''02 MARCH 2025'', position = '''', actions_text = ''Turn on radio.'',
        sop_suggestion = '''', expanded = True, doc_bytes = None, doc_filename = None\<rparr>,
        [OpenTemplate, StError ''Error generating document: No such file or directory'',
         StError ''Document generation failed or missing required fields.''])"
  by (simp add: generate_button_def generate_doc_def missing_def required_def session_state_def
      strptime_examples(1) render_def strip_def isspace_def)

end
